theory Spec2Isabelle
  imports Main
begin

section \<open>JavaScript primitives used by the time-slot code\<close>

text \<open>
  Strings are \<open>char list\<close>; every character stands for one code unit below 256. The
  time fields handled by the admin page are ASCII, so nothing beyond that range is needed.
\<close>

definition isDigit :: "char \<Rightarrow> bool" where
  \<comment> \<open>the regex class \<open>[0-9]\<close>\<close>
  "isDigit c = (48 \<le> (of_char c :: nat) \<and> (of_char c :: nat) \<le> 57)"

definition inRange :: "char \<Rightarrow> char \<Rightarrow> char \<Rightarrow> bool" where
  \<comment> \<open>a regex class \<open>[lo-hi]\<close>: comparison of code units\<close>
  "inRange lo hi c = ((of_char lo :: nat) \<le> of_char c \<and> (of_char c :: nat) \<le> of_char hi)"

definition isWhiteSpace :: "char \<Rightarrow> bool" where
  \<comment> \<open>white space and line terminators below 256: TAB, LF, VT, FF, CR, SP, NBSP\<close>
  "isWhiteSpace c = ((of_char c :: nat) \<in> {9, 10, 11, 12, 13, 32, 160})"

definition digitValue :: "char \<Rightarrow> nat option" where
  \<comment> \<open>value of a digit in any radix up to 36: 0-9, a-z, A-Z\<close>
  "digitValue c =
     (let n = (of_char c :: nat) in
      if 48 \<le> n \<and> n \<le> 57 then Some (n - 48)
      else if 97 \<le> n \<and> n \<le> 122 then Some (n - 87)
      else if 65 \<le> n \<and> n \<le> 90 then Some (n - 55)
      else None)"

definition isRadixDigit :: "nat \<Rightarrow> char \<Rightarrow> bool" where
  "isRadixDigit radix c = (case digitValue c of None \<Rightarrow> False | Some v \<Rightarrow> v < radix)"

definition digitsValue :: "nat \<Rightarrow> string \<Rightarrow> nat" where
  "digitsValue radix ds =
     foldl (\<lambda>acc c. acc * radix + (case digitValue c of None \<Rightarrow> 0 | Some v \<Rightarrow> v)) 0 ds"

fun replaceFirst :: "char \<Rightarrow> string \<Rightarrow> string" where
  \<comment> \<open>\<open>s.replace(':', '')\<close>: a string pattern removes the first occurrence only\<close>
  "replaceFirst p [] = []"
| "replaceFirst p (c # cs) = (if c = p then cs else c # replaceFirst p cs)"

text \<open>
  \<open>parseInt(s)\<close> without a radix: leading white space is skipped, then an optional sign,
  then an optional \<open>0x\<close>/\<open>0X\<close> prefix selecting radix 16; the longest prefix of digits of
  the radix is read, and the result is NaN when that prefix is empty. NaN is \<open>None\<close>.
  The value is the exact integer; a JavaScript Number agrees with it below \<open>2^53\<close>, far
  above anything a four-digit time can encode.
\<close>

definition parseInt :: "string \<Rightarrow> int option" where
  "parseInt s =
     (let t = dropWhile isWhiteSpace s;
          neg = (case t of c # _ \<Rightarrow> c = CHR ''-'' | [] \<Rightarrow> False);
          u = (case t of c # r \<Rightarrow> if c = CHR ''-'' \<or> c = CHR ''+'' then r else t | [] \<Rightarrow> t);
          hex = (case u of a # b # _ \<Rightarrow> a = CHR ''0'' \<and> (b = CHR ''x'' \<or> b = CHR ''X'') | _ \<Rightarrow> False);
          radix = (if hex then 16 else 10);
          v = (if hex then drop 2 u else u);
          ds = takeWhile (isRadixDigit radix) v
      in if ds = [] then None
         else Some ((if neg then - 1 else 1) * int (digitsValue radix ds)))"

text \<open>Relational operators on Numbers: any comparison with NaN is false.\<close>

definition js_lt :: "int option \<Rightarrow> int option \<Rightarrow> bool" where
  "js_lt a b = (case (a, b) of (Some x, Some y) \<Rightarrow> x < y | _ \<Rightarrow> False)"

definition js_le :: "int option \<Rightarrow> int option \<Rightarrow> bool" where
  "js_le a b = (case (a, b) of (Some x, Some y) \<Rightarrow> x \<le> y | _ \<Rightarrow> False)"

definition js_gt :: "int option \<Rightarrow> int option \<Rightarrow> bool" where
  "js_gt a b = js_lt b a"

definition js_ge :: "int option \<Rightarrow> int option \<Rightarrow> bool" where
  "js_ge a b = js_le b a"

fun some :: "('a \<Rightarrow> bool) \<Rightarrow> 'a list \<Rightarrow> bool" where
  \<comment> \<open>\<open>Array.prototype.some\<close>: stops at the first element the callback accepts\<close>
  "some p [] = False"
| "some p (x # xs) = (if p x then True else some p xs)"

fun mapIndexed :: "nat \<Rightarrow> ('a \<Rightarrow> nat \<Rightarrow> 'b) \<Rightarrow> 'a list \<Rightarrow> 'b list" where
  \<comment> \<open>\<open>Array.prototype.map\<close> with the two-argument callback; the first argument is the
      index of the head\<close>
  "mapIndexed i f [] = []"
| "mapIndexed i f (x # xs) = f x i # mapIndexed (Suc i) f xs"

section \<open>Admin time-slot page (pages/admin/Timeslots.tsx)\<close>

record TimeSlot =
  id_ts :: string
  start :: string
  end_ts :: string
  enabled :: bool

record SpecialSlot =
  id_sp :: string
  date :: string
  slots :: "TimeSlot list"

text \<open>\<open>Omit<TimeSlot, 'id'>\<close>, the type of the form.\<close>

record FormData =
  start_fd :: string
  end_fd :: string
  enabled_fd :: bool

datatype tab = regular | special

subsection \<open>The schema\<close>

fun timeRegex :: "string \<Rightarrow> bool" where
  \<comment> \<open>\<open>/^([0-1]?[0-9]|2[0-3]):[0-5][0-9]$/\<close>: the hour is one digit, or two digits
      starting with 0 or 1, or 2 followed by 0-3\<close>
  "timeRegex [h, c, m1, m2] =
     (isDigit h \<and> c = CHR '':'' \<and> inRange (CHR ''0'') (CHR ''5'') m1 \<and> isDigit m2)"
| "timeRegex [h1, h2, c, m1, m2] =
     (((inRange (CHR ''0'') (CHR ''1'') h1 \<and> isDigit h2)
        \<or> (h1 = CHR ''2'' \<and> inRange (CHR ''0'') (CHR ''3'') h2))
      \<and> c = CHR '':'' \<and> inRange (CHR ''0'') (CHR ''5'') m1 \<and> isDigit m2)"
| "timeRegex _ = False"

definition timeCode :: "string \<Rightarrow> int option" where
  \<comment> \<open>\<open>parseInt(t.replace(':', ''))\<close>, written four times in \<open>checkConflicts\<close> and twice
      in the schema's refinement\<close>
  "timeCode t = parseInt (replaceFirst (CHR '':'') t)"

datatype issue_message =
    InvalidStartTime  \<comment> \<open>message of the \<open>start\<close> regex\<close>
  | InvalidEndTime  \<comment> \<open>message of the \<open>end\<close> regex\<close>
  | EndMustBeAfterStart  \<comment> \<open>message of the refinement\<close>

record ZodIssue =
  path :: "string list"
  message :: issue_message

definition refinement :: "FormData \<Rightarrow> bool" where
  "refinement data =
     (let start' = timeCode (start_fd data);
          end' = timeCode (end_fd data)
      in js_gt end' start')"

text \<open>
  \<open>timeSlotSchema.parse\<close>. The library runs the two string checks in the order of the
  object's keys; a failed regex marks the value dirty without aborting, so the refinement
  runs on the same data afterwards and adds its own issue with an empty path. \<open>parse\<close>
  throws the collected issues when there are any and returns the data otherwise.
\<close>

definition timeSlotSchema_issues :: "FormData \<Rightarrow> ZodIssue list" where
  "timeSlotSchema_issues data =
     (if timeRegex (start_fd data) then []
      else [\<lparr>path = [''start''], message = InvalidStartTime\<rparr>])
     @ (if timeRegex (end_fd data) then []
        else [\<lparr>path = [''end''], message = InvalidEndTime\<rparr>])
     @ (if refinement data then []
        else [\<lparr>path = [], message = EndMustBeAfterStart\<rparr>])"

definition timeSlotSchema_parse :: "FormData \<Rightarrow> ZodIssue list + FormData" where
  "timeSlotSchema_parse data =
     (let issues = timeSlotSchema_issues data
      in if issues = [] then Inr data else Inl issues)"

subsection \<open>Component state and mock data\<close>

datatype toast =
    SlotSaved  \<comment> \<open>\<open>toast.success\<close> at the end of \<open>handleSave\<close>\<close>

record TimeslotsState =
  activeTab :: tab
  regularSlots :: "TimeSlot list"
  specialSlots :: "SpecialSlot list"
  selectedSlot_ts :: "TimeSlot option"
  isEditing :: bool
  formData :: FormData
  errors :: "string \<rightharpoonup> issue_message"
  toasts_ts :: "toast list"  \<comment> \<open>notifications shown so far, oldest first\<close>

definition mockRegularSlots :: "TimeSlot list" where
  "mockRegularSlots =
     [\<lparr>id_ts = ''1'', start = ''09:00'', end_ts = ''12:00'', enabled = True\<rparr>,
      \<lparr>id_ts = ''2'', start = ''14:00'', end_ts = ''18:00'', enabled = True\<rparr>]"

definition mockSpecialSlots :: "SpecialSlot list" where
  "mockSpecialSlots =
     [\<lparr>id_sp = ''1'', date = ''2025-05-01'',
       slots = [\<lparr>id_ts = ''1-1'', start = ''10:00'', end_ts = ''15:00'', enabled = True\<rparr>]\<rparr>]"

definition emptyForm :: FormData where
  "emptyForm = \<lparr>start_fd = [], end_fd = [], enabled_fd = True\<rparr>"

definition initialState :: TimeslotsState where
  \<comment> \<open>the initial values of the \<open>useState\<close> calls\<close>
  "initialState =
     \<lparr>activeTab = regular, regularSlots = mockRegularSlots, specialSlots = mockSpecialSlots,
      selectedSlot_ts = None, isEditing = False, formData = emptyForm,
      errors = Map.empty, toasts_ts = []\<rparr>"

subsection \<open>Conflict check\<close>

definition slotsToCheck :: "TimeslotsState \<Rightarrow> TimeSlot list" where
  "slotsToCheck st =
     (if activeTab st = regular then regularSlots st
      else concat (map slots (specialSlots st)))"

definition conflictsWith :: "TimeSlot \<Rightarrow> TimeSlot \<Rightarrow> bool" where
  \<comment> \<open>the callback given to \<open>some\<close>\<close>
  "conflictsWith newSlot slot =
     (if id_ts slot = id_ts newSlot then False
      else
        let newStart = timeCode (start newSlot);
            newEnd = timeCode (end_ts newSlot);
            slotStart = timeCode (start slot);
            slotEnd = timeCode (end_ts slot)
        in (js_ge newStart slotStart \<and> js_lt newStart slotEnd)
           \<or> (js_gt newEnd slotStart \<and> js_le newEnd slotEnd)
           \<or> (js_le newStart slotStart \<and> js_ge newEnd slotEnd))"

definition checkConflicts :: "TimeslotsState \<Rightarrow> TimeSlot \<Rightarrow> bool" where
  "checkConflicts st newSlot = some (conflictsWith newSlot) (slotsToCheck st)"



subsection \<open>Saving\<close>

definition issueKey :: "ZodIssue \<Rightarrow> string" where
  \<comment> \<open>\<open>curr.path[0]\<close> used as a property key: an empty path gives \<open>undefined\<close>\<close>
  "issueKey issue = (case path issue of [] \<Rightarrow> ''undefined'' | k # _ \<Rightarrow> k)"

definition validateForm :: "TimeslotsState \<Rightarrow> bool \<times> TimeslotsState" where
  "validateForm st =
     (case timeSlotSchema_parse (formData st) of
        Inr _ \<Rightarrow> (True, st\<lparr>errors := Map.empty\<rparr>)
      | Inl issues \<Rightarrow>
          (False,
           st\<lparr>errors := foldl (\<lambda>acc issue. acc(issueKey issue \<mapsto> message issue)) Map.empty issues\<rparr>))"

definition spreadForm :: "TimeSlot \<Rightarrow> FormData \<Rightarrow> TimeSlot" where
  \<comment> \<open>\<open>{ ...slot, ...formData }\<close>\<close>
  "spreadForm slot fd = slot\<lparr>start := start_fd fd, end_ts := end_fd fd, enabled := enabled_fd fd\<rparr>"

text \<open>
  The clock as \<open>handleSave\<close> reads it: \<open>Date.now().toString()\<close> for the new slot,
  \<open>Date.now().toString()\<close> again for a new group, and \<open>new Date().toISOString()\<close>.
\<close>

record Clock =
  slotStamp :: string
  groupStamp :: string
  isoNow :: string

definition isoDate :: "string \<Rightarrow> string" where
  \<comment> \<open>\<open>stamp.split('T')[0]\<close>\<close>
  "isoDate stamp = takeWhile (\<lambda>c. c \<noteq> CHR ''T'') stamp"

definition updateExisting :: "TimeslotsState \<Rightarrow> TimeSlot \<Rightarrow> TimeslotsState \<Rightarrow> TimeslotsState" where
  \<comment> \<open>the branch \<open>isEditing && selectedSlot\<close>; \<open>st\<close> is the rendered state the handler
      closes over, \<open>acc\<close> the state being assembled\<close>
  "updateExisting st sel acc =
     (if activeTab st = regular
      then acc\<lparr>regularSlots :=
             map (\<lambda>slot. if id_ts slot = id_ts sel then spreadForm slot (formData st) else slot)
               (regularSlots st)\<rparr>
      else acc\<lparr>specialSlots :=
             map (\<lambda>special. special\<lparr>slots :=
                    map (\<lambda>slot. if id_ts slot = id_ts sel then spreadForm slot (formData st) else slot)
                      (slots special)\<rparr>)
               (specialSlots st)\<rparr>)"

definition addNew :: "Clock \<Rightarrow> TimeslotsState \<Rightarrow> TimeslotsState \<Rightarrow> TimeslotsState" where
  "addNew clock st acc =
     (let newSlot = \<lparr>id_ts = slotStamp clock, start = start_fd (formData st),
                     end_ts = end_fd (formData st), enabled = enabled_fd (formData st)\<rparr>
      in if activeTab st = regular
         then acc\<lparr>regularSlots := regularSlots st @ [newSlot]\<rparr>
         else if length (specialSlots st) > 0
         then acc\<lparr>specialSlots :=
                mapIndexed 0
                  (\<lambda>special index.
                     if index = 0 then special\<lparr>slots := slots special @ [newSlot]\<rparr> else special)
                  (specialSlots st)\<rparr>
         else acc\<lparr>specialSlots :=
                [\<lparr>id_sp = groupStamp clock, date = isoDate (isoNow clock), slots = [newSlot]\<rparr>]\<rparr>)"

definition handleSave :: "Clock \<Rightarrow> TimeslotsState \<Rightarrow> TimeslotsState" where
  "handleSave clock st =
     (case validateForm st of
        (False, st1) \<Rightarrow> st1
      | (True, st1) \<Rightarrow>
          let st2 = (case selectedSlot_ts st of
                       Some sel \<Rightarrow> if isEditing st then updateExisting st sel st1
                                   else addNew clock st st1
                     | None \<Rightarrow> addNew clock st st1)
          in st2\<lparr>toasts_ts := toasts_ts st2 @ [SlotSaved], selectedSlot_ts := None,
                 isEditing := False, formData := emptyForm\<rparr>)"

section \<open>Booking page (pages/Booking.tsx)\<close>

record Slot =
  start_bk :: string
  end_bk :: string
  available :: bool

record DaySlots =
  date_bk :: string
  slots_bk :: "Slot list"

text \<open>
  The three pieces of state the calendar works on. The form fields, their errors and the
  loading flag live in the record's extension: the two selection handlers do not touch
  them.
\<close>

record BookingState =
  selectedDate :: "string option"
  selectedSlot :: "string option"
  availableSlots :: "DaySlots list"

definition handleDateSelect :: "string \<Rightarrow> 'a BookingState_scheme \<Rightarrow> 'a BookingState_scheme" where
  "handleDateSelect date' st = st\<lparr>selectedDate := Some date', selectedSlot := None\<rparr>"

definition handleSlotSelect :: "string \<Rightarrow> 'a BookingState_scheme \<Rightarrow> 'a BookingState_scheme" where
  "handleSlotSelect slot st = st\<lparr>selectedSlot := Some slot\<rparr>"

definition hasAvailable :: "DaySlots \<Rightarrow> bool" where
  \<comment> \<open>\<open>daySlot.slots.some(s => s.available)\<close>, computed for every calendar button\<close>
  "hasAvailable daySlot = some available (slots_bk daySlot)"

section \<open>Fetch wrapper (lib/api.ts)\<close>

fun startsWith :: "string \<Rightarrow> string \<Rightarrow> bool" where
  "startsWith s [] = True"
| "startsWith [] (p # ps) = False"
| "startsWith (c # cs) (p # ps) = (c = p \<and> startsWith cs ps)"

fun includes_js :: "string \<Rightarrow> string \<Rightarrow> bool" where
  "includes_js [] sub = startsWith [] sub"
| "includes_js (c # cs) sub = (startsWith (c # cs) sub \<or> includes_js cs sub)"

text \<open>
  What can be thrown inside \<open>fetchAPI\<close>. The first four come from the runtime (\<open>fetch\<close>,
  \<open>response.text()\<close>, \<open>response.json()\<close>) and carry its text; the last three are the
  \<open>new Error(...)\<close> values the wrapper builds itself, one constructor per message
  template. A \<open>DOMException\<close> is an instance of \<open>Error\<close>.
\<close>

datatype js_error =
    TypeError string  \<comment> \<open>message\<close>
  | DOMException string string  \<comment> \<open>name, message\<close>
  | OtherError string  \<comment> \<open>any other \<open>Error\<close> instance, e.g. the SyntaxError of \<open>json()\<close>\<close>
  | NonError  \<comment> \<open>a thrown value that is not an \<open>Error\<close> instance\<close>
  | HtmlInsteadOfJson  \<comment> \<open>the server returned an HTML page instead of JSON data\<close>
  | InvalidResponseType "string option"  \<comment> \<open>invalid response type, with the header's value\<close>
  | RequestFailed nat string  \<comment> \<open>request failed, with status and status text\<close>

record 'j Response =
  contentType :: "string option"  \<comment> \<open>\<open>response.headers.get('content-type')\<close>\<close>
  ok :: bool
  status :: nat
  statusText :: string
  text_body :: "js_error + string"  \<comment> \<open>what \<open>await response.text()\<close> gives\<close>
  json_body :: "js_error + 'j"  \<comment> \<open>what \<open>await response.json()\<close> gives\<close>

datatype 'j Fetched = Rejects js_error | Resolves "'j Response"

record RequestInit =
  method_ri :: "string option"
  headers_ri :: "(string \<rightharpoonup> string) option"
  body_ri :: "string option"

record FetchCall =
  url :: string
  method_fc :: "string option"
  headers_fc :: "string \<rightharpoonup> string"
  body_fc :: "string option"
  credentials :: string
  signalTimeout :: nat  \<comment> \<open>milliseconds given to \<open>AbortSignal.timeout\<close>\<close>

definition API_BASE_URL :: string where
  "API_BASE_URL = ''/api''"

definition fetchCall :: "string \<Rightarrow> RequestInit option \<Rightarrow> FetchCall" where
  \<comment> \<open>the two arguments of \<open>fetch\<close>\<close>
  "fetchCall endpoint options =
     \<lparr>url = API_BASE_URL @ endpoint,
      method_fc = (case options of None \<Rightarrow> None | Some opt \<Rightarrow> method_ri opt),
      headers_fc =
        [''Content-Type'' \<mapsto> ''application/json'']
        ++ (case options of None \<Rightarrow> Map.empty
            | Some opt \<Rightarrow> (case headers_ri opt of None \<Rightarrow> Map.empty | Some h \<Rightarrow> h)),
      body_fc = (case options of None \<Rightarrow> None | Some opt \<Rightarrow> body_ri opt),
      credentials = ''include'',
      signalTimeout = 8000\<rparr>"

definition isJson :: "string option \<Rightarrow> bool" where
  \<comment> \<open>the negation of \<open>!contentType || !contentType.includes('application/json')\<close>\<close>
  "isJson ct = (case ct of None \<Rightarrow> False
                | Some c \<Rightarrow> c \<noteq> [] \<and> includes_js c ''application/json'')"

definition tryBlock :: "'j Fetched \<Rightarrow> js_error + 'j" where
  \<comment> \<open>the body of \<open>try\<close>: \<open>Inl\<close> is what it throws, \<open>Inr\<close> what it returns\<close>
  "tryBlock fetched =
     (case fetched of
        Rejects e \<Rightarrow> Inl e
      | Resolves response \<Rightarrow>
          if \<not> isJson (contentType response)
          then (case text_body response of
                  Inl e \<Rightarrow> Inl e
                | Inr text \<Rightarrow>
                    if startsWith text ''<!DOCTYPE html>'' then Inl HtmlInsteadOfJson
                    else Inl (InvalidResponseType (contentType response)))
          else if \<not> ok response
          then (case json_body response of
                  Inl e \<Rightarrow> Inl (RequestFailed (status response) (statusText response))
                | Inr error \<Rightarrow> Inl (RequestFailed (status response) (statusText response)))
          else json_body response)"

datatype error_toast =
    NetworkRequestFailed  \<comment> \<open>the initial value of \<open>errorMessage\<close>\<close>
  | CannotReachServer
  | RequestTimedOut
  | ApiRequestError js_error  \<comment> \<open>the prefix followed by \<open>error.message\<close>\<close>

definition errorMessage :: "js_error \<Rightarrow> error_toast" where
  "errorMessage error =
     (case error of
        TypeError m \<Rightarrow> if includes_js m ''Failed to fetch'' then CannotReachServer
                       else ApiRequestError error
      | DOMException name m \<Rightarrow> if name = ''AbortError'' then RequestTimedOut
                               else ApiRequestError error
      | NonError \<Rightarrow> NetworkRequestFailed
      | _ \<Rightarrow> ApiRequestError error)"

definition fallbackSlots :: "string \<Rightarrow> DaySlots list" where
  \<comment> \<open>the array returned for \<open>/timeslots\<close>; the argument is \<open>new Date().toISOString()\<close>\<close>
  "fallbackSlots stamp =
     [\<lparr>date_bk = isoDate stamp,
       slots_bk = [\<lparr>start_bk = ''09:00'', end_bk = ''12:00'', available = True\<rparr>,
                   \<lparr>start_bk = ''14:00'', end_bk = ''18:00'', available = True\<rparr>]\<rparr>]"

datatype 'j ApiData = Json 'j | Mock "DaySlots list"

text \<open>
  One call of \<open>fetchAPI\<close>: the calls of \<open>fetch\<close> it made, the error toasts it showed, and
  how its promise settled (\<open>Inl\<close> rejected, \<open>Inr\<close> fulfilled). The first argument is what
  \<open>fetch\<close> did with the call, the second the clock. In the branch of a response that is
  not \<open>ok\<close>, the inner \<open>catch\<close> replaces whatever the inner \<open>try\<close> threw.
\<close>

record 'j ApiRun =
  fetchCalls :: "FetchCall list"
  toasts :: "error_toast list"
  settled :: "js_error + 'j ApiData"

definition fetchAPI :: "'j Fetched \<Rightarrow> string \<Rightarrow> string \<Rightarrow> RequestInit option \<Rightarrow> 'j ApiRun" where
  "fetchAPI fetched stamp endpoint options =
     (case tryBlock fetched of
        Inr data \<Rightarrow>
          \<lparr>fetchCalls = [fetchCall endpoint options], toasts = [], settled = Inr (Json data)\<rparr>
      | Inl error \<Rightarrow>
          \<lparr>fetchCalls = [fetchCall endpoint options],
           toasts = [errorMessage error],
           settled = (if endpoint = ''/timeslots'' then Inr (Mock (fallbackSlots stamp))
                      else Inl error)\<rparr>)"

section \<open>The specification's vocabulary\<close>

definition digit :: "char \<Rightarrow> int" where
  "digit c = int (of_char c) - 48"

fun hhmmCode :: "string \<Rightarrow> int" where
  \<comment> \<open>hours * 100 + minutes of an \<open>H:MM\<close> or \<open>HH:MM\<close> string\<close>
  "hhmmCode [h1, h2, c, m1, m2] = (digit h1 * 10 + digit h2) * 100 + (digit m1 * 10 + digit m2)"
| "hhmmCode [h, c, m1, m2] = digit h * 100 + (digit m1 * 10 + digit m2)"
| "hhmmCode _ = 0"

fun zeroPadded :: "string \<Rightarrow> bool" where
  \<comment> \<open>two digits, a colon, two digits\<close>
  "zeroPadded [h1, h2, c, m1, m2] =
     (isDigit h1 \<and> isDigit h2 \<and> c = CHR '':'' \<and> isDigit m1 \<and> isDigit m2)"
| "zeroPadded _ = False"

definition wellFormedSlot :: "TimeSlot \<Rightarrow> bool" where
  "wellFormedSlot s =
     (zeroPadded (start s) \<and> zeroPadded (end_ts s) \<and> hhmmCode (start s) < hhmmCode (end_ts s))"

definition validSlot :: "TimeSlot \<Rightarrow> bool" where
  \<comment> \<open>fields the schema's pattern accepts, end after start\<close>
  "validSlot s =
     (timeRegex (start s) \<and> timeRegex (end_ts s) \<and> hhmmCode (start s) < hhmmCode (end_ts s))"

datatype ValidationError = InvalidFormat | InvalidRange

fun errorKind :: "issue_message \<Rightarrow> ValidationError" where
  "errorKind InvalidStartTime = InvalidFormat"
| "errorKind InvalidEndTime = InvalidFormat"
| "errorKind EndMustBeAfterStart = InvalidRange"

datatype Selection = NoneSelected | DateSelected string | DateAndSlotSelected string string

fun selection :: "string option \<Rightarrow> string option \<Rightarrow> Selection option" where
  \<comment> \<open>the state of the selection machine a pair of fields stands for; a slot without
      a date is none of the three\<close>
  "selection None None = Some NoneSelected"
| "selection (Some d) None = Some (DateSelected d)"
| "selection (Some d) (Some s) = Some (DateAndSlotSelected d s)"
| "selection None (Some s) = None"

definition selectionOf :: "'a BookingState_scheme \<Rightarrow> Selection option" where
  "selectionOf st = selection (selectedDate st) (selectedSlot st)"

definition newSlotOf :: "Clock \<Rightarrow> TimeslotsState \<Rightarrow> TimeSlot" where
  \<comment> \<open>the slot a save adds: the form's fields under the clock's stamp\<close>
  "newSlotOf clock st =
     \<lparr>id_ts = slotStamp clock, start = start_fd (formData st), end_ts = end_fd (formData st),
      enabled = enabled_fd (formData st)\<rparr>"


definition htmlResponse :: "unit Response" where
  "htmlResponse =
     \<lparr>contentType = Some ''text/html'', ok = True, status = 200, statusText = ''OK'',
      text_body = Inr ''<!DOCTYPE html><html></html>'',
      json_body = Inl (OtherError ''Unexpected token'')\<rparr>"

definition overlappingForm :: TimeslotsState where
  \<comment> \<open>the initial page with 11:00-13:00 typed into the form: it overlaps mock slot 1\<close>
  "overlappingForm =
     initialState\<lparr>formData := \<lparr>start_fd = ''11:00'', end_fd = ''13:00'', enabled_fd = True\<rparr>\<rparr>"

definition sampleClock :: Clock where
  "sampleClock =
     \<lparr>slotStamp = ''1747729800000'', groupStamp = ''1747729800001'',
      isoNow = ''2025-05-20T08:30:00.000Z''\<rparr>"




section \<open>Time codes\<close>

lemma isDigit_not_white: "isDigit c \<Longrightarrow> \<not> isWhiteSpace c"
  by (auto simp: isDigit_def isWhiteSpace_def)

lemma isDigit_not_special:
  "isDigit c \<Longrightarrow>
     c \<noteq> CHR ''-'' \<and> c \<noteq> CHR ''+'' \<and> c \<noteq> CHR ''x'' \<and> c \<noteq> CHR ''X'' \<and> c \<noteq> CHR '':''"
  by (auto simp: isDigit_def)

lemma isDigit_radix10: "isDigit c \<Longrightarrow> isRadixDigit 10 c"
  by (auto simp: isDigit_def isRadixDigit_def digitValue_def Let_def)

lemma isDigit_value: "isDigit c \<Longrightarrow> digitValue c = Some (nat (digit c))"
  by (auto simp: isDigit_def digitValue_def Let_def digit_def)

lemma digit_bounds: "isDigit c \<Longrightarrow> 0 \<le> digit c \<and> digit c \<le> 9"
  by (auto simp: isDigit_def digit_def)

lemma inRange_isDigit:
  "inRange (CHR ''0'') (CHR ''5'') c \<Longrightarrow> isDigit c"
  "inRange (CHR ''0'') (CHR ''1'') c \<Longrightarrow> isDigit c"
  "inRange (CHR ''0'') (CHR ''3'') c \<Longrightarrow> isDigit c"
  "isDigit (CHR ''2'')"
  by (auto simp: inRange_def isDigit_def)

lemma parseInt_4digits:
  assumes "isDigit a" "isDigit b" "isDigit c" "isDigit d"
  shows "parseInt [a, b, c, d] = Some (digit a * 1000 + digit b * 100 + digit c * 10 + digit d)"
  using assms digit_bounds[of a] digit_bounds[of b] digit_bounds[of c] digit_bounds[of d]
  by (simp add: parseInt_def Let_def isDigit_not_white isDigit_not_special isDigit_radix10
      digitsValue_def isDigit_value)

lemma parseInt_3digits:
  assumes "isDigit a" "isDigit b" "isDigit c"
  shows "parseInt [a, b, c] = Some (digit a * 100 + digit b * 10 + digit c)"
  using assms digit_bounds[of a] digit_bounds[of b] digit_bounds[of c]
  by (simp add: parseInt_def Let_def isDigit_not_white isDigit_not_special isDigit_radix10
      digitsValue_def isDigit_value)

lemma timeCode_5:
  assumes "isDigit a" "isDigit b" "isDigit c" "isDigit d"
  shows "timeCode [a, b, CHR '':'', c, d] = Some (hhmmCode [a, b, CHR '':'', c, d])"
  using assms by (simp add: timeCode_def isDigit_not_special parseInt_4digits)

lemma timeCode_4:
  assumes "isDigit a" "isDigit c" "isDigit d"
  shows "timeCode [a, CHR '':'', c, d] = Some (hhmmCode [a, CHR '':'', c, d])"
  using assms by (simp add: timeCode_def isDigit_not_special parseInt_3digits)

lemma timeCode_zeroPadded: "zeroPadded t \<Longrightarrow> timeCode t = Some (hhmmCode t)"
proof (induction t rule: zeroPadded.induct)
  case (1 h1 h2 c m1 m2)
  then show ?case using timeCode_5[of h1 h2 m1 m2] by simp
qed simp_all

lemma timeCode_timeRegex: "timeRegex t \<Longrightarrow> timeCode t = Some (hhmmCode t)"
proof (induction t rule: timeRegex.induct)
  case (1 h c m1 m2)
  then show ?case using timeCode_4[of h m1 m2] by (auto simp: inRange_isDigit)
next
  case (2 h1 h2 c m1 m2)
  then show ?case using timeCode_5[of h1 h2 m1 m2] by (auto simp: inRange_isDigit)
qed simp_all

lemma refinement_timeRegex:
  assumes "timeRegex (start_fd data)" "timeRegex (end_fd data)"
  shows "refinement data \<longleftrightarrow> hhmmCode (start_fd data) < hhmmCode (end_fd data)"
  using assms by (simp add: refinement_def Let_def js_gt_def js_lt_def timeCode_timeRegex)

section \<open>Conflicts as interval overlap\<close>

lemma conflictsWith_overlap:
  assumes "timeCode (start a) = Some s1" "timeCode (end_ts a) = Some e1" "s1 < e1"
    and "timeCode (start b) = Some s2" "timeCode (end_ts b) = Some e2" "s2 < e2"
  shows "conflictsWith a b \<longleftrightarrow> id_ts b \<noteq> id_ts a \<and> s1 < e2 \<and> s2 < e1"
  using assms by (auto simp: conflictsWith_def Let_def js_lt_def js_le_def js_gt_def js_ge_def)

lemma some_iff: "some p xs \<longleftrightarrow> (\<exists>x\<in>set xs. p x)"
  by (induction xs) auto

text \<open>
  Claim C1. When the candidate and every slot of the pool have zero-padded HH:MM fields
  whose codes (hours * 100 + minutes) satisfy end > start, \<open>checkConflicts\<close> is true
  exactly when some pool slot with another id overlaps the candidate as a half-open
  interval: candidate start < slot end and slot start < candidate end. On an empty pool
  it is false, and a slot with the candidate's id is never a conflict.
\<close>

theorem checkConflicts_overlap:
  assumes "wellFormedSlot newSlot"
    and "\<forall>slot\<in>set (slotsToCheck st). wellFormedSlot slot"
  shows "(checkConflicts st newSlot \<longleftrightarrow>
            (\<exists>slot\<in>set (slotsToCheck st).
               id_ts slot \<noteq> id_ts newSlot
               \<and> hhmmCode (start newSlot) < hhmmCode (end_ts slot)
               \<and> hhmmCode (start slot) < hhmmCode (end_ts newSlot)))
       \<and> (slotsToCheck st = [] \<longrightarrow> \<not> checkConflicts st newSlot)
       \<and> (\<forall>slot. id_ts slot = id_ts newSlot \<longrightarrow> \<not> conflictsWith newSlot slot)"
proof (intro conjI)
  have one: "conflictsWith newSlot slot \<longleftrightarrow>
        id_ts slot \<noteq> id_ts newSlot
        \<and> hhmmCode (start newSlot) < hhmmCode (end_ts slot)
        \<and> hhmmCode (start slot) < hhmmCode (end_ts newSlot)"
    if "slot \<in> set (slotsToCheck st)" for slot
  proof -
    from that assms(2) have w: "wellFormedSlot slot" by blast
    show ?thesis
      using assms(1) w
      by (intro conflictsWith_overlap) (simp_all add: wellFormedSlot_def timeCode_zeroPadded)
  qed
  show "checkConflicts st newSlot \<longleftrightarrow>
            (\<exists>slot\<in>set (slotsToCheck st).
               id_ts slot \<noteq> id_ts newSlot
               \<and> hhmmCode (start newSlot) < hhmmCode (end_ts slot)
               \<and> hhmmCode (start slot) < hhmmCode (end_ts newSlot))"
    unfolding checkConflicts_def some_iff using one by blast
  show "slotsToCheck st = [] \<longrightarrow> \<not> checkConflicts st newSlot"
    by (simp add: checkConflicts_def)
  show "\<forall>slot. id_ts slot = id_ts newSlot \<longrightarrow> \<not> conflictsWith newSlot slot"
    by (simp add: conflictsWith_def)
qed

theorem checkConflicts_overlap_witness:
  "wellFormedSlot \<lparr>id_ts = [], start = ''11:00'', end_ts = ''13:00'', enabled = True\<rparr>
   \<and> list_all wellFormedSlot (slotsToCheck initialState)
   \<and> checkConflicts initialState
        \<lparr>id_ts = [], start = ''11:00'', end_ts = ''13:00'', enabled = True\<rparr>
   \<and> \<not> checkConflicts initialState
        \<lparr>id_ts = ''1'', start = ''11:00'', end_ts = ''13:00'', enabled = True\<rparr>"
proof -
  let ?c = "\<lparr>id_ts = [], start = ''11:00'', end_ts = ''13:00'', enabled = True\<rparr>"
  let ?d = "\<lparr>id_ts = ''1'', start = ''11:00'', end_ts = ''13:00'', enabled = True\<rparr>"
  have pool: "slotsToCheck initialState = mockRegularSlots"
    by (simp add: slotsToCheck_def initialState_def)
  have h1: "wellFormedSlot ?c" "wellFormedSlot ?d"
    by (simp_all add: wellFormedSlot_def isDigit_def digit_def)
  have h2: "\<forall>slot\<in>set (slotsToCheck initialState). wellFormedSlot slot"
    by (simp add: pool mockRegularSlots_def wellFormedSlot_def isDigit_def digit_def)
  show ?thesis
    using h1 h2 checkConflicts_overlap[OF h1(1) h2] checkConflicts_overlap[OF h1(2) h2]
    by (simp add: pool mockRegularSlots_def digit_def list_all_iff)
qed

text \<open>
  Claim C5. For two slots with fields the schema's pattern accepts, end > start and
  different ids, checking the first against a pool holding only the second gives the
  same answer as checking the second against a pool holding only the first.
\<close>

theorem checkConflicts_symmetric:
  assumes "validSlot a" and "validSlot b" and "id_ts a \<noteq> id_ts b"
    and "slotsToCheck stb = [b]" and "slotsToCheck sta = [a]"
  shows "checkConflicts stb a = checkConflicts sta b"
proof -
  have ab: "conflictsWith a b \<longleftrightarrow>
      id_ts b \<noteq> id_ts a \<and> hhmmCode (start a) < hhmmCode (end_ts b)
      \<and> hhmmCode (start b) < hhmmCode (end_ts a)"
    using assms(1,2)
    by (intro conflictsWith_overlap) (simp_all add: validSlot_def timeCode_timeRegex)
  have ba: "conflictsWith b a \<longleftrightarrow>
      id_ts a \<noteq> id_ts b \<and> hhmmCode (start b) < hhmmCode (end_ts a)
      \<and> hhmmCode (start a) < hhmmCode (end_ts b)"
    using assms(1,2)
    by (intro conflictsWith_overlap) (simp_all add: validSlot_def timeCode_timeRegex)
  show ?thesis
    using ab ba assms(3) by (auto simp: checkConflicts_def assms(4,5))
qed

theorem checkConflicts_symmetric_witness:
  "validSlot \<lparr>id_ts = ''a'', start = ''9:00'', end_ts = ''12:00'', enabled = True\<rparr>
   \<and> validSlot \<lparr>id_ts = ''b'', start = ''11:30'', end_ts = ''13:00'', enabled = False\<rparr>
   \<and> ''a'' \<noteq> ''b''
   \<and> checkConflicts
        (initialState\<lparr>regularSlots :=
           [\<lparr>id_ts = ''b'', start = ''11:30'', end_ts = ''13:00'', enabled = False\<rparr>]\<rparr>)
        \<lparr>id_ts = ''a'', start = ''9:00'', end_ts = ''12:00'', enabled = True\<rparr>
   \<and> checkConflicts
        (initialState\<lparr>regularSlots :=
           [\<lparr>id_ts = ''a'', start = ''9:00'', end_ts = ''12:00'', enabled = True\<rparr>]\<rparr>)
        \<lparr>id_ts = ''b'', start = ''11:30'', end_ts = ''13:00'', enabled = False\<rparr>"
proof -
  let ?a = "\<lparr>id_ts = ''a'', start = ''9:00'', end_ts = ''12:00'', enabled = True\<rparr>"
  let ?b = "\<lparr>id_ts = ''b'', start = ''11:30'', end_ts = ''13:00'', enabled = False\<rparr>"
  have va: "validSlot ?a" and vb: "validSlot ?b"
    by (simp_all add: validSlot_def isDigit_def inRange_def digit_def)
  have ne: "id_ts ?a \<noteq> id_ts ?b" by simp
  have pb: "slotsToCheck (initialState\<lparr>regularSlots := [?b]\<rparr>) = [?b]"
    and pa: "slotsToCheck (initialState\<lparr>regularSlots := [?a]\<rparr>) = [?a]"
    by (simp_all add: slotsToCheck_def initialState_def)
  have direct: "conflictsWith ?a ?b"
    by (simp add: conflictsWith_def timeCode_def parseInt_def Let_def isWhiteSpace_def
        isRadixDigit_def digitValue_def digitsValue_def js_lt_def js_le_def js_gt_def js_ge_def)
  have "checkConflicts (initialState\<lparr>regularSlots := [?b]\<rparr>) ?a"
    using direct by (simp add: checkConflicts_def pb)
  with checkConflicts_symmetric[OF va vb ne pb pa] va vb show ?thesis by simp
qed

text \<open>
  Claim C6. With different ids, 09:00-12:00 against a pool holding 12:00-14:00 is no
  conflict (touching end points), and 09:00-12:00 against a pool holding 11:00-13:00 is
  a conflict.
\<close>

theorem checkConflicts_boundary:
  assumes "i \<noteq> j"
    and "slotsToCheck st1 = [\<lparr>id_ts = j, start = ''12:00'', end_ts = ''14:00'', enabled = e1\<rparr>]"
    and "slotsToCheck st2 = [\<lparr>id_ts = j, start = ''11:00'', end_ts = ''13:00'', enabled = e2\<rparr>]"
  shows "\<not> checkConflicts st1 \<lparr>id_ts = i, start = ''09:00'', end_ts = ''12:00'', enabled = e\<rparr>
       \<and> checkConflicts st2 \<lparr>id_ts = i, start = ''09:00'', end_ts = ''12:00'', enabled = e\<rparr>"
  using assms(1)
  by (simp add: checkConflicts_def assms(2,3) conflictsWith_def timeCode_def parseInt_def
      Let_def isWhiteSpace_def isRadixDigit_def digitValue_def digitsValue_def
      js_lt_def js_le_def js_gt_def js_ge_def)

theorem checkConflicts_boundary_witness:
  "''new'' \<noteq> ''1''
   \<and> \<not> checkConflicts
        (initialState\<lparr>regularSlots :=
           [\<lparr>id_ts = ''1'', start = ''12:00'', end_ts = ''14:00'', enabled = True\<rparr>]\<rparr>)
        \<lparr>id_ts = ''new'', start = ''09:00'', end_ts = ''12:00'', enabled = True\<rparr>
   \<and> checkConflicts
        (initialState\<lparr>regularSlots :=
           [\<lparr>id_ts = ''1'', start = ''11:00'', end_ts = ''13:00'', enabled = True\<rparr>]\<rparr>)
        \<lparr>id_ts = ''new'', start = ''09:00'', end_ts = ''12:00'', enabled = True\<rparr>"
proof -
  have ne: "''new'' \<noteq> ''1''" by simp
  have p1: "slotsToCheck (initialState\<lparr>regularSlots :=
           [\<lparr>id_ts = ''1'', start = ''12:00'', end_ts = ''14:00'', enabled = True\<rparr>]\<rparr>)
        = [\<lparr>id_ts = ''1'', start = ''12:00'', end_ts = ''14:00'', enabled = True\<rparr>]"
    by (simp add: slotsToCheck_def initialState_def)
  have p2: "slotsToCheck (initialState\<lparr>regularSlots :=
           [\<lparr>id_ts = ''1'', start = ''11:00'', end_ts = ''13:00'', enabled = True\<rparr>]\<rparr>)
        = [\<lparr>id_ts = ''1'', start = ''11:00'', end_ts = ''13:00'', enabled = True\<rparr>]"
    by (simp add: slotsToCheck_def initialState_def)
  show ?thesis
    using checkConflicts_boundary[OF ne p1 p2, of True] by simp
qed


section \<open>Schema validation\<close>

lemma issues_empty_iff:
  "timeSlotSchema_issues data = [] \<longleftrightarrow>
     timeRegex (start_fd data) \<and> timeRegex (end_fd data) \<and> refinement data"
  by (simp add: timeSlotSchema_issues_def)

lemma parse_Inr_iff:
  "(\<exists>d. timeSlotSchema_parse data = Inr d) \<longleftrightarrow> timeSlotSchema_issues data = []"
  by (simp add: timeSlotSchema_parse_def Let_def)

lemma parse_accepts_iff:
  "timeSlotSchema_parse data = Inr data \<longleftrightarrow>
     timeRegex (start_fd data) \<and> timeRegex (end_fd data)
     \<and> hhmmCode (start_fd data) < hhmmCode (end_fd data)"
  using refinement_timeRegex[of data]
  by (auto simp: timeSlotSchema_parse_def Let_def issues_empty_iff)

text \<open>
  Claim C2. Parsing a form with \<open>timeSlotSchema\<close> succeeds exactly when both fields match
  the 24-hour pattern and the code of the end is greater than the code of the start.
  When a field does not match, parsing fails and the issues hold a format error for that
  field; when both match and end \<le> start, parsing fails with the range error alone.
  ``25:00'' and ``9:60'' do not match the pattern.
\<close>

theorem timeSlotSchema_validation:
  "((\<exists>d. timeSlotSchema_parse data = Inr d) \<longleftrightarrow>
      timeRegex (start_fd data) \<and> timeRegex (end_fd data)
      \<and> hhmmCode (start_fd data) < hhmmCode (end_fd data))
   \<and> (\<not> timeRegex (start_fd data) \<or> \<not> timeRegex (end_fd data) \<longrightarrow>
        (\<exists>issues. timeSlotSchema_parse data = Inl issues
           \<and> (\<exists>issue\<in>set issues. errorKind (message issue) = InvalidFormat)))
   \<and> (\<not> timeRegex (start_fd data) \<longrightarrow>
        \<lparr>path = [''start''], message = InvalidStartTime\<rparr> \<in> set (timeSlotSchema_issues data))
   \<and> (\<not> timeRegex (end_fd data) \<longrightarrow>
        \<lparr>path = [''end''], message = InvalidEndTime\<rparr> \<in> set (timeSlotSchema_issues data))
   \<and> (timeRegex (start_fd data) \<and> timeRegex (end_fd data)
        \<and> hhmmCode (end_fd data) \<le> hhmmCode (start_fd data) \<longrightarrow>
        timeSlotSchema_parse data = Inl [\<lparr>path = [], message = EndMustBeAfterStart\<rparr>]
        \<and> errorKind EndMustBeAfterStart = InvalidRange)
   \<and> \<not> timeRegex ''25:00'' \<and> \<not> timeRegex ''9:60''"
proof (intro conjI)
  show "(\<exists>d. timeSlotSchema_parse data = Inr d) \<longleftrightarrow>
      timeRegex (start_fd data) \<and> timeRegex (end_fd data)
      \<and> hhmmCode (start_fd data) < hhmmCode (end_fd data)"
    using refinement_timeRegex[of data] by (auto simp: parse_Inr_iff issues_empty_iff)
  show "\<not> timeRegex (start_fd data) \<or> \<not> timeRegex (end_fd data) \<longrightarrow>
        (\<exists>issues. timeSlotSchema_parse data = Inl issues
           \<and> (\<exists>issue\<in>set issues. errorKind (message issue) = InvalidFormat))"
    by (auto simp: timeSlotSchema_parse_def Let_def timeSlotSchema_issues_def)
  show "\<not> timeRegex (start_fd data) \<longrightarrow>
        \<lparr>path = [''start''], message = InvalidStartTime\<rparr> \<in> set (timeSlotSchema_issues data)"
    by (simp add: timeSlotSchema_issues_def)
  show "\<not> timeRegex (end_fd data) \<longrightarrow>
        \<lparr>path = [''end''], message = InvalidEndTime\<rparr> \<in> set (timeSlotSchema_issues data)"
    by (simp add: timeSlotSchema_issues_def)
  show "timeRegex (start_fd data) \<and> timeRegex (end_fd data)
        \<and> hhmmCode (end_fd data) \<le> hhmmCode (start_fd data) \<longrightarrow>
        timeSlotSchema_parse data = Inl [\<lparr>path = [], message = EndMustBeAfterStart\<rparr>]
        \<and> errorKind EndMustBeAfterStart = InvalidRange"
    using refinement_timeRegex[of data]
    by (auto simp: timeSlotSchema_parse_def Let_def timeSlotSchema_issues_def)
  show "\<not> timeRegex ''25:00''"
    by (simp add: inRange_def)
  show "\<not> timeRegex ''9:60''"
    by (simp add: inRange_def)
qed

theorem timeSlotSchema_validation_witness:
  "(\<exists>d. timeSlotSchema_parse \<lparr>start_fd = ''09:00'', end_fd = ''12:00'', enabled_fd = True\<rparr> = Inr d)
   \<and> (\<exists>issues.
         timeSlotSchema_parse \<lparr>start_fd = ''25:00'', end_fd = ''9:60'', enabled_fd = True\<rparr>
           = Inl issues
         \<and> (\<exists>issue\<in>set issues. errorKind (message issue) = InvalidFormat))
   \<and> timeSlotSchema_parse \<lparr>start_fd = ''12:00'', end_fd = ''9:30'', enabled_fd = True\<rparr>
       = Inl [\<lparr>path = [], message = EndMustBeAfterStart\<rparr>]"
proof -
  let ?good = "\<lparr>start_fd = ''09:00'', end_fd = ''12:00'', enabled_fd = True\<rparr>"
  let ?malformed = "\<lparr>start_fd = ''25:00'', end_fd = ''9:60'', enabled_fd = True\<rparr>"
  let ?inverted = "\<lparr>start_fd = ''12:00'', end_fd = ''9:30'', enabled_fd = True\<rparr>"
  have g: "timeRegex (start_fd ?good) \<and> timeRegex (end_fd ?good)
           \<and> hhmmCode (start_fd ?good) < hhmmCode (end_fd ?good)"
    by (simp add: isDigit_def inRange_def digit_def)
  have m: "\<not> timeRegex (start_fd ?malformed) \<or> \<not> timeRegex (end_fd ?malformed)"
    by (simp add: inRange_def)
  have i: "timeRegex (start_fd ?inverted) \<and> timeRegex (end_fd ?inverted)
           \<and> hhmmCode (end_fd ?inverted) \<le> hhmmCode (start_fd ?inverted)"
    by (simp add: isDigit_def inRange_def digit_def)
  note r1 = timeSlotSchema_validation[of ?good, THEN conjunct1, THEN iffD2, OF g]
  note r2 = timeSlotSchema_validation[of ?malformed, THEN conjunct2, THEN conjunct1,
      THEN mp, OF m]
  note r3 = timeSlotSchema_validation[of ?inverted, THEN conjunct2, THEN conjunct2,
      THEN conjunct2, THEN conjunct2, THEN conjunct1, THEN mp, OF i, THEN conjunct1]
  show ?thesis
    by (intro conjI r1 r2 r3)
qed

section \<open>Selection on the booking page\<close>

text \<open>
  Claim C3. From any state, \<open>handleDateSelect d\<close> sets the date to \<open>d\<close> and clears the
  slot; \<open>handleSlotSelect s\<close> sets the slot to \<open>s\<close> and leaves the date alone. Selecting
  2025-05-20 and then 09:00-12:00 gives DateAndSlotSelected, and selecting 2025-05-21
  afterwards gives DateSelected with no slot.
\<close>

theorem selection_transitions:
  "handleDateSelect d st = st\<lparr>selectedDate := Some d, selectedSlot := None\<rparr>
   \<and> selectionOf (handleDateSelect d st) = Some (DateSelected d)
   \<and> selectedDate (handleSlotSelect s st) = selectedDate st
   \<and> selectedSlot (handleSlotSelect s st) = Some s
   \<and> handleSlotSelect s (handleDateSelect d st)
       = st\<lparr>selectedDate := Some d, selectedSlot := Some s\<rparr>
   \<and> selectionOf (handleSlotSelect s (handleDateSelect d st)) = Some (DateAndSlotSelected d s)
   \<and> selectionOf (handleSlotSelect ''09:00-12:00'' (handleDateSelect ''2025-05-20'' st))
       = Some (DateAndSlotSelected ''2025-05-20'' ''09:00-12:00'')
   \<and> selectionOf
        (handleDateSelect ''2025-05-21''
          (handleSlotSelect ''09:00-12:00'' (handleDateSelect ''2025-05-20'' st)))
       = Some (DateSelected ''2025-05-21'')"
  by (simp add: handleDateSelect_def handleSlotSelect_def selectionOf_def)

section \<open>Availability of a day\<close>

text \<open>
  Claim C7. \<open>hasAvailable\<close> is true exactly when some slot of the day is available. It
  is false when every slot is unavailable and when there is no slot, and true once an
  available slot is put anywhere into the list; the specification's example day is
  unavailable with its one slot and available with a second, available one.
\<close>

theorem hasAvailable_iff:
  "(hasAvailable day \<longleftrightarrow> (\<exists>s\<in>set (slots_bk day). available s))
   \<and> ((\<forall>s\<in>set (slots_bk day). \<not> available s) \<longrightarrow> \<not> hasAvailable day)
   \<and> (slots_bk day = [] \<longrightarrow> \<not> hasAvailable day)
   \<and> (available s \<longrightarrow> hasAvailable (day\<lparr>slots_bk := before @ s # after\<rparr>))
   \<and> \<not> hasAvailable
         \<lparr>date_bk = ''2025-05-20'',
          slots_bk = [\<lparr>start_bk = ''09:00'', end_bk = ''12:00'', available = False\<rparr>]\<rparr>
   \<and> hasAvailable
         \<lparr>date_bk = ''2025-05-20'',
          slots_bk = [\<lparr>start_bk = ''09:00'', end_bk = ''12:00'', available = False\<rparr>,
                      \<lparr>start_bk = ''14:00'', end_bk = ''18:00'', available = True\<rparr>]\<rparr>"
  by (auto simp: hasAvailable_def some_iff)

theorem hasAvailable_iff_witness:
  "list_all (\<lambda>s. \<not> available s)
     [\<lparr>start_bk = ''09:00'', end_bk = ''12:00'', available = False\<rparr>]
   \<and> \<not> hasAvailable
         \<lparr>date_bk = ''2025-05-20'',
          slots_bk = [\<lparr>start_bk = ''09:00'', end_bk = ''12:00'', available = False\<rparr>]\<rparr>
   \<and> \<not> hasAvailable \<lparr>date_bk = ''2025-05-20'', slots_bk = []\<rparr>
   \<and> available \<lparr>start_bk = ''14:00'', end_bk = ''18:00'', available = True\<rparr>
   \<and> hasAvailable
         \<lparr>date_bk = ''2025-05-20'',
          slots_bk = [\<lparr>start_bk = ''09:00'', end_bk = ''12:00'', available = False\<rparr>,
                      \<lparr>start_bk = ''14:00'', end_bk = ''18:00'', available = True\<rparr>]\<rparr>"
proof -
  let ?busy = "\<lparr>start_bk = ''09:00'', end_bk = ''12:00'', available = False\<rparr>"
  let ?free = "\<lparr>start_bk = ''14:00'', end_bk = ''18:00'', available = True\<rparr>"
  let ?day = "\<lparr>date_bk = ''2025-05-20'', slots_bk = [?busy]\<rparr>"
  let ?none = "\<lparr>date_bk = ''2025-05-20'', slots_bk = []\<rparr>"
  have a: "\<forall>s\<in>set (slots_bk ?day). \<not> available s" by simp
  have b: "slots_bk ?none = []" by simp
  have c: "available ?free" by simp
  from hasAvailable_iff[of ?day ?free "[?busy]" "[]"] a c
  have "\<not> hasAvailable ?day" and "hasAvailable (?day\<lparr>slots_bk := [?busy] @ ?free # []\<rparr>)"
    by blast+
  moreover from hasAvailable_iff[of ?none ?free "[]" "[]"] b have "\<not> hasAvailable ?none"
    by blast
  ultimately show ?thesis by simp
qed


section \<open>The fetch wrapper\<close>

lemma tryBlock_returns_iff:
  "(\<exists>data. tryBlock fetched = Inr data) \<longleftrightarrow>
     (\<exists>response data. fetched = Resolves response \<and> isJson (contentType response)
        \<and> ok response \<and> json_body response = Inr data)"
  by (cases fetched) (auto simp: tryBlock_def split: sum.splits)

lemma isoDate_day: "CHR ''T'' \<notin> set day \<Longrightarrow> isoDate (day @ CHR ''T'' # time) = day"
  by (induction day) (auto simp: isoDate_def)

lemma isJson_iff: "isJson ct \<longleftrightarrow> (\<exists>c. ct = Some c \<and> includes_js c ''application/json'')"
  by (cases ct) (auto simp: isJson_def)

text \<open>
  Claim C4. \<open>fetchAPI\<close> calls \<open>fetch\<close> once, with a timeout signal of 8000 ms. Whenever
  its \<open>try\<close> block throws (\<open>fetch\<close> rejected, the content type is not JSON, the status
  is not ok, or the body does not parse: everything but a JSON response that is ok and
  parses), it shows one error toast; for \<open>/timeslots\<close> it then returns one day, dated
  the part of the clock's ISO string before \<open>T\<close>, with the slots 09:00-12:00 and
  14:00-18:00, both available; for any other endpoint it rethrows the error.
\<close>

theorem fetchAPI_timeout_fallback:
  "fetchCalls (fetchAPI fetched stamp endpoint options) = [fetchCall endpoint options]
   \<and> signalTimeout (fetchCall endpoint options) = 8000
   \<and> (\<forall>call\<in>set (fetchCalls (fetchAPI fetched stamp endpoint options)).
         signalTimeout call = 8000)
   \<and> ((\<exists>error. tryBlock fetched = Inl error) \<longleftrightarrow>
        \<not> (\<exists>response data. fetched = Resolves response \<and> isJson (contentType response)
              \<and> ok response \<and> json_body response = Inr data))
   \<and> (tryBlock fetched = Inl error \<longrightarrow>
        toasts (fetchAPI fetched stamp endpoint options) = [errorMessage error]
        \<and> (endpoint = ''/timeslots'' \<longrightarrow>
             settled (fetchAPI fetched stamp endpoint options)
               = Inr (Mock [\<lparr>date_bk = isoDate stamp,
                              slots_bk =
                                [\<lparr>start_bk = ''09:00'', end_bk = ''12:00'', available = True\<rparr>,
                                 \<lparr>start_bk = ''14:00'', end_bk = ''18:00'', available = True\<rparr>]\<rparr>]))
        \<and> (endpoint \<noteq> ''/timeslots'' \<longrightarrow>
             settled (fetchAPI fetched stamp endpoint options) = Inl error))
   \<and> (CHR ''T'' \<notin> set day \<longrightarrow> isoDate (day @ CHR ''T'' # time) = day)"
proof (intro conjI)
  show "fetchCalls (fetchAPI fetched stamp endpoint options) = [fetchCall endpoint options]"
    by (simp add: fetchAPI_def split: sum.splits)
  then show "\<forall>call\<in>set (fetchCalls (fetchAPI fetched stamp endpoint options)).
         signalTimeout call = 8000"
    by (simp add: fetchCall_def)
  show "signalTimeout (fetchCall endpoint options) = 8000"
    by (simp add: fetchCall_def)
  show "(\<exists>error. tryBlock fetched = Inl error) \<longleftrightarrow>
        \<not> (\<exists>response data. fetched = Resolves response \<and> isJson (contentType response)
              \<and> ok response \<and> json_body response = Inr data)"
    unfolding tryBlock_returns_iff[symmetric] by (cases "tryBlock fetched") simp_all
  show "tryBlock fetched = Inl error \<longrightarrow>
        toasts (fetchAPI fetched stamp endpoint options) = [errorMessage error]
        \<and> (endpoint = ''/timeslots'' \<longrightarrow>
             settled (fetchAPI fetched stamp endpoint options)
               = Inr (Mock [\<lparr>date_bk = isoDate stamp,
                              slots_bk =
                                [\<lparr>start_bk = ''09:00'', end_bk = ''12:00'', available = True\<rparr>,
                                 \<lparr>start_bk = ''14:00'', end_bk = ''18:00'', available = True\<rparr>]\<rparr>]))
        \<and> (endpoint \<noteq> ''/timeslots'' \<longrightarrow>
             settled (fetchAPI fetched stamp endpoint options) = Inl error)"
    by (simp add: fetchAPI_def fallbackSlots_def)
  show "CHR ''T'' \<notin> set day \<longrightarrow> isoDate (day @ CHR ''T'' # time) = day"
    by (simp add: isoDate_day)
qed

theorem fetchAPI_timeout_fallback_witness:
  "tryBlock (Rejects (DOMException ''TimeoutError'' ''The operation timed out.'') :: unit Fetched)
     = Inl (DOMException ''TimeoutError'' ''The operation timed out.'')
   \<and> settled (fetchAPI
        (Rejects (DOMException ''TimeoutError'' ''The operation timed out.'') :: unit Fetched)
        ''2025-05-20T08:30:00.000Z'' ''/timeslots'' None)
       = Inr (Mock [\<lparr>date_bk = ''2025-05-20'',
                      slots_bk =
                        [\<lparr>start_bk = ''09:00'', end_bk = ''12:00'', available = True\<rparr>,
                         \<lparr>start_bk = ''14:00'', end_bk = ''18:00'', available = True\<rparr>]\<rparr>])
   \<and> toasts (fetchAPI
        (Rejects (DOMException ''TimeoutError'' ''The operation timed out.'') :: unit Fetched)
        ''2025-05-20T08:30:00.000Z'' ''/timeslots'' None)
       = [ApiRequestError (DOMException ''TimeoutError'' ''The operation timed out.'')]
   \<and> settled (fetchAPI
        (Rejects (DOMException ''TimeoutError'' ''The operation timed out.'') :: unit Fetched)
        ''2025-05-20T08:30:00.000Z'' ''/appointments'' None)
       = Inl (DOMException ''TimeoutError'' ''The operation timed out.'')"
proof -
  let ?e = "DOMException ''TimeoutError'' ''The operation timed out.''"
  let ?f = "Rejects ?e :: unit Fetched"
  let ?now = "''2025-05-20T08:30:00.000Z''"
  have t: "tryBlock ?f = Inl ?e"
    by (simp add: tryBlock_def)
  have slots_ep: "''/timeslots'' = ''/timeslots''" ..
  have other_ep: "''/appointments'' \<noteq> ''/timeslots''" by simp
  have day: "isoDate ?now = ''2025-05-20''"
    by (simp add: isoDate_def)
  note body = fetchAPI_timeout_fallback[of ?f ?now _ None ?e, THEN conjunct2, THEN conjunct2,
      THEN conjunct2, THEN conjunct2, THEN conjunct1, THEN mp, OF t]
  note a = body[of "''/timeslots''", THEN conjunct2, THEN conjunct1, THEN mp, OF slots_ep]
  note b = body[of "''/timeslots''", THEN conjunct1]
  note c = body[of "''/appointments''", THEN conjunct2, THEN conjunct2, THEN mp, OF other_ep]
  have b': "toasts (fetchAPI ?f ?now ''/timeslots'' None) = [ApiRequestError ?e]"
    unfolding b by (simp add: errorMessage_def)
  show ?thesis
    by (intro conjI t a[unfolded day] b' c)
qed

text \<open>
  Claim C8, amended. When the response's content type is absent or does not include
  \<open>application/json\<close>, the \<open>try\<close> block always throws and the body is never returned.
  For every endpoint but \<open>/timeslots\<close> the call rejects: with the HTML-page error when
  the body read starts with the doctype marker, with the invalid-type error (a different
  one) for any other body, with the read's own error when the body cannot be read. For
  \<open>/timeslots\<close> the same error is only shown as a toast and the call returns the
  fallback days.
\<close>

theorem fetchAPI_non_json:
  assumes "\<not> isJson (contentType response)"
  shows "(isJson (contentType response) \<longleftrightarrow>
            (\<exists>c. contentType response = Some c \<and> includes_js c ''application/json''))
       \<and> (\<exists>error. tryBlock (Resolves response) = Inl error
            \<and> toasts (fetchAPI (Resolves response) stamp endpoint options) = [errorMessage error]
            \<and> (endpoint \<noteq> ''/timeslots'' \<longrightarrow>
                 settled (fetchAPI (Resolves response) stamp endpoint options) = Inl error)
            \<and> (endpoint = ''/timeslots'' \<longrightarrow>
                 settled (fetchAPI (Resolves response) stamp endpoint options)
                   = Inr (Mock (fallbackSlots stamp))))
       \<and> (\<forall>body. text_body response = Inr body \<longrightarrow>
            tryBlock (Resolves response)
              = Inl (if startsWith body ''<!DOCTYPE html>'' then HtmlInsteadOfJson
                     else InvalidResponseType (contentType response)))
       \<and> HtmlInsteadOfJson \<noteq> InvalidResponseType (contentType response)"
proof -
  have "\<exists>error. tryBlock (Resolves response) = Inl error"
    using assms by (cases "text_body response") (simp_all add: tryBlock_def)
  then obtain error where e: "tryBlock (Resolves response) = Inl error" ..
  have "toasts (fetchAPI (Resolves response) stamp endpoint options) = [errorMessage error]"
    and "endpoint \<noteq> ''/timeslots'' \<longrightarrow>
           settled (fetchAPI (Resolves response) stamp endpoint options) = Inl error"
    and "endpoint = ''/timeslots'' \<longrightarrow>
           settled (fetchAPI (Resolves response) stamp endpoint options)
             = Inr (Mock (fallbackSlots stamp))"
    by (simp_all add: fetchAPI_def e)
  moreover have "\<forall>body. text_body response = Inr body \<longrightarrow>
            tryBlock (Resolves response)
              = Inl (if startsWith body ''<!DOCTYPE html>'' then HtmlInsteadOfJson
                     else InvalidResponseType (contentType response))"
    using assms by (simp add: tryBlock_def)
  ultimately show ?thesis
    using e isJson_iff[of "contentType response"] by auto
qed

theorem fetchAPI_non_json_witness:
  "\<not> isJson (contentType htmlResponse)
   \<and> tryBlock (Resolves htmlResponse) = Inl HtmlInsteadOfJson"
proof -
  have h: "\<not> isJson (contentType htmlResponse)"
    by (simp add: isJson_def htmlResponse_def)
  have b: "text_body htmlResponse = Inr ''<!DOCTYPE html><html></html>''"
    by (simp add: htmlResponse_def)
  have s: "startsWith ''<!DOCTYPE html><html></html>'' ''<!DOCTYPE html>''"
    by simp
  note r = fetchAPI_non_json[OF h, of "[]" "[]" None, THEN conjunct2, THEN conjunct2,
      THEN conjunct1, THEN spec, THEN mp, OF b]
  show ?thesis
    using h r s by simp
qed

theorem fetchAPI_non_json_timeslots_counterexample:
  "\<not> isJson (contentType htmlResponse)
   \<and> settled (fetchAPI (Resolves htmlResponse) ''2025-05-20T08:30:00.000Z'' ''/timeslots'' None)
     = Inr (Mock [\<lparr>date_bk = ''2025-05-20'',
                    slots_bk =
                      [\<lparr>start_bk = ''09:00'', end_bk = ''12:00'', available = True\<rparr>,
                       \<lparr>start_bk = ''14:00'', end_bk = ''18:00'', available = True\<rparr>]\<rparr>])"
  by (simp add: fetchAPI_def tryBlock_def htmlResponse_def isJson_def fallbackSlots_def
      isoDate_def)


section \<open>Saving a slot\<close>

lemma mapIndexed_rest: "0 < n \<Longrightarrow> mapIndexed n (\<lambda>x i. if i = 0 then f x else x) xs = xs"
  by (induction xs arbitrary: n) auto

lemma mapIndexed_first: "mapIndexed 0 (\<lambda>x i. if i = 0 then f x else x) (x # xs) = f x # xs"
  by (simp add: mapIndexed_rest)

lemma validateForm_ok:
  "timeSlotSchema_parse (formData st) = Inr d \<Longrightarrow> validateForm st = (True, st\<lparr>errors := Map.empty\<rparr>)"
  by (simp add: validateForm_def)



lemma handleSave_add:
  assumes "timeSlotSchema_parse (formData st) = Inr d"
    and "\<not> (isEditing st \<and> selectedSlot_ts st \<noteq> None)"
  shows "regularSlots (handleSave clock st)
           = (if activeTab st = regular then regularSlots st @ [newSlotOf clock st]
              else regularSlots st)"
    and "specialSlots (handleSave clock st)
           = (if activeTab st = regular then specialSlots st
              else case specialSlots st of
                     [] \<Rightarrow> [\<lparr>id_sp = groupStamp clock, date = isoDate (isoNow clock),
                             slots = [newSlotOf clock st]\<rparr>]
                   | g # gs \<Rightarrow> g\<lparr>slots := slots g @ [newSlotOf clock st]\<rparr> # gs)"
  using assms
  by (auto simp: handleSave_def validateForm_ok addNew_def Let_def newSlotOf_def
      mapIndexed_first mapIndexed_rest split: option.splits list.splits)





lemma overlappingForm_valid:
  "timeSlotSchema_parse (formData overlappingForm) = Inr (formData overlappingForm)"
  by (simp add: parse_accepts_iff overlappingForm_def isDigit_def inRange_def digit_def)





text \<open>
  Claim C10. Adding in the special tab with a valid form: when the special list has a
  first group, whatever its date, the new slot is appended to that group's slots and
  every later group is unchanged; when the list is empty, it becomes one new group dated
  the day part of the clock's ISO string and holding the new slot alone.
\<close>

theorem handleSave_special_first_group:
  assumes "timeSlotSchema_parse (formData st) = Inr (formData st)"
    and "activeTab st = special"
    and "\<not> (isEditing st \<and> selectedSlot_ts st \<noteq> None)"
  shows "(\<forall>g gs. specialSlots st = g # gs \<longrightarrow>
            specialSlots (handleSave clock st)
              = \<lparr>id_sp = id_sp g, date = date g, slots = slots g @ [newSlotOf clock st]\<rparr> # gs)
       \<and> (specialSlots st = [] \<longrightarrow>
            specialSlots (handleSave clock st)
              = [\<lparr>id_sp = groupStamp clock, date = isoDate (isoNow clock),
                  slots = [newSlotOf clock st]\<rparr>])
       \<and> (\<forall>i. 0 < i \<and> i < length (specialSlots st) \<longrightarrow>
            specialSlots (handleSave clock st) ! i = specialSlots st ! i)
       \<and> (specialSlots st \<noteq> [] \<longrightarrow>
            length (specialSlots (handleSave clock st)) = length (specialSlots st))
       \<and> regularSlots (handleSave clock st) = regularSlots st"
proof -
  note add = handleSave_add[OF assms(1) assms(3), of clock]
  have sp: "specialSlots (handleSave clock st)
      = (case specialSlots st of
           [] \<Rightarrow> [\<lparr>id_sp = groupStamp clock, date = isoDate (isoNow clock),
                   slots = [newSlotOf clock st]\<rparr>]
         | g # gs \<Rightarrow> g\<lparr>slots := slots g @ [newSlotOf clock st]\<rparr> # gs)"
    using add(2) assms(2) by simp
  have reg: "regularSlots (handleSave clock st) = regularSlots st"
    using add(1) assms(2) by simp
  show ?thesis
  proof (cases "specialSlots st")
    case Nil
    with sp reg show ?thesis by simp
  next
    case (Cons g gs)
    have later: "specialSlots (handleSave clock st) ! i = specialSlots st ! i" if "0 < i" for i
      using that sp Cons by (cases i) simp_all
    from sp reg Cons later show ?thesis by simp
  qed
qed

theorem handleSave_special_first_group_witness:
  "specialSlots (handleSave sampleClock (overlappingForm\<lparr>activeTab := special\<rparr>))
     = [\<lparr>id_sp = ''1'', date = ''2025-05-01'',
         slots = [\<lparr>id_ts = ''1-1'', start = ''10:00'', end_ts = ''15:00'', enabled = True\<rparr>,
                  \<lparr>id_ts = ''1747729800000'', start = ''11:00'', end_ts = ''13:00'',
                    enabled = True\<rparr>]\<rparr>]
   \<and> specialSlots
        (handleSave sampleClock (overlappingForm\<lparr>activeTab := special, specialSlots := []\<rparr>))
     = [\<lparr>id_sp = ''1747729800001'', date = ''2025-05-20'',
         slots = [\<lparr>id_ts = ''1747729800000'', start = ''11:00'', end_ts = ''13:00'',
                   enabled = True\<rparr>]\<rparr>]"
proof -
  let ?one = "overlappingForm\<lparr>activeTab := special\<rparr>"
  let ?none = "overlappingForm\<lparr>activeTab := special, specialSlots := []\<rparr>"
  have v1: "timeSlotSchema_parse (formData ?one) = Inr (formData ?one)"
    and v2: "timeSlotSchema_parse (formData ?none) = Inr (formData ?none)"
    using overlappingForm_valid by simp_all
  have t1: "activeTab ?one = special" and t2: "activeTab ?none = special"
    by simp_all
  have a1: "\<not> (isEditing ?one \<and> selectedSlot_ts ?one \<noteq> None)"
    and a2: "\<not> (isEditing ?none \<and> selectedSlot_ts ?none \<noteq> None)"
    by (simp_all add: overlappingForm_def initialState_def)
  have groups: "specialSlots ?one
      = \<lparr>id_sp = ''1'', date = ''2025-05-01'',
         slots = [\<lparr>id_ts = ''1-1'', start = ''10:00'', end_ts = ''15:00'', enabled = True\<rparr>]\<rparr>
        # []"
    by (simp add: overlappingForm_def initialState_def mockSpecialSlots_def)
  have empty: "specialSlots ?none = []"
    by simp
  note r1 = handleSave_special_first_group[OF v1 t1 a1, of sampleClock, THEN conjunct1,
      THEN spec, THEN spec, THEN mp, OF groups]
  note r2 = handleSave_special_first_group[OF v2 t2 a2, of sampleClock, THEN conjunct2,
      THEN conjunct1, THEN mp, OF empty]
  have new: "newSlotOf sampleClock ?one
      = \<lparr>id_ts = ''1747729800000'', start = ''11:00'', end_ts = ''13:00'', enabled = True\<rparr>"
    "newSlotOf sampleClock ?none
      = \<lparr>id_ts = ''1747729800000'', start = ''11:00'', end_ts = ''13:00'', enabled = True\<rparr>"
    by (simp_all add: newSlotOf_def sampleClock_def overlappingForm_def)
  have day: "isoDate (isoNow sampleClock) = ''2025-05-20''"
    by (simp add: isoDate_def sampleClock_def)
  have stamp: "groupStamp sampleClock = ''1747729800001''"
    by (simp add: sampleClock_def)
  show ?thesis
    using r1 r2 new day stamp by simp
qed


end
